theory Spec2Isabelle
  imports Complex_Main
begin

section \<open>Values of type double\<close>

text \<open>
  \<^verbatim>\<open>types.h\<close> computes with \<^verbatim>\<open>double\<close> (and instantiates one template with
  \<^verbatim>\<open>float\<close> as well). A value of such a type is modelled by its kind, as IEEE 754 has
  it: a finite number (\<open>Fin 0\<close> is \<^verbatim>\<open>+0.0\<close>), the negative zero, an infinity with its
  sign bit (\<open>Infty True\<close> is \<^verbatim>\<open>-inf\<close>), or NaN.

  Each arithmetic operation takes the rounding as a parameter, a function from the
  exact nonzero result to the value delivered, and the cases in which an operand is a
  zero, an infinity or NaN, where IEEE 754 fixes the result without rounding, are
  written out. The rounding of \<^verbatim>\<open>double\<close> is \<open>binary64\<close>, defined below; a property
  proved for every rounding holds of \<^verbatim>\<open>double\<close> and of \<^verbatim>\<open>float\<close>.
  Negation and the comparisons are exact operations and take no rounding.
\<close>

datatype double = Fin real | NZero | Infty bool | NaN

type_synonym rounding = "real \<Rightarrow> double"

fun is_nan :: "double \<Rightarrow> bool" where
  "is_nan NaN = True"
| "is_nan _ = False"

fun is_zero :: "double \<Rightarrow> bool" where
  "is_zero (Fin r) = (r = 0)"
| "is_zero NZero = True"
| "is_zero _ = False"

fun real_of :: "double \<Rightarrow> real option" where
  "real_of (Fin r) = Some r"
| "real_of NZero = Some 0"
| "real_of _ = None"

definition is_finite :: "double \<Rightarrow> bool" where
  "is_finite d = (real_of d \<noteq> None)"

fun sign_bit :: "double \<Rightarrow> bool" where
  "sign_bit (Fin r) = (r < 0)"
| "sign_bit NZero = True"
| "sign_bit (Infty s) = s"
| "sign_bit NaN = False"

definition signed_zero :: "bool \<Rightarrow> double" where
  "signed_zero s = (if s then NZero else Fin 0)"

text \<open>
  The rounding of \<^verbatim>\<open>double\<close>: to the nearest number with 53 significant bits, of two
  nearest the one whose last bit is zero. \<open>e\<close> is the exponent of the value, not below
  that of the subnormal numbers, and \<open>q\<close> the distance between neighbouring numbers
  of the format at that exponent; the value is rounded to a multiple \<open>n\<close> of \<open>q\<close>. A
  result of magnitude \<open>2 ^ 1024\<close> or more is an infinity, one that rounds to nothing a
  zero, both with the sign of the value.
\<close>

definition round_half_even :: "real \<Rightarrow> int" where
  "round_half_even t =
     (let f = \<lfloor>t\<rfloor>; d = t - of_int f
      in if d < 1 / 2 then f
         else if 1 / 2 < d then f + 1
         else if even f then f
         else f + 1)"

definition binary64 :: rounding where
  "binary64 r =
     (if r = 0 then Fin 0
      else let a = \<bar>r\<bar>;
               e = max \<lfloor>log 2 a\<rfloor> (- 1022);
               q = 2 powr (of_int e - 52);
               n = round_half_even (a / q);
               m = of_int n * q
           in if 2 ^ 1024 \<le> m then Infty (r < 0)
              else if n = 0 then signed_zero (r < 0)
              else Fin (if r < 0 then - m else m))"



text \<open>Unary minus flips the sign bit.\<close>

fun fneg :: "double \<Rightarrow> double" where
  "fneg (Fin r) = (if r = 0 then NZero else Fin (- r))"
| "fneg NZero = Fin 0"
| "fneg (Infty s) = Infty (\<not> s)"
| "fneg NaN = NaN"

text \<open>
  The binary operations. In each, the first line is NaN propagation; then the operands
  are split into finite and infinite. An exact zero result gets its sign from the
  operands; any other exact result goes through the rounding.
\<close>

definition fadd :: "rounding \<Rightarrow> double \<Rightarrow> double \<Rightarrow> double" where
  "fadd rnd a b =
     (if is_nan a \<or> is_nan b then NaN
      else case (real_of a, real_of b) of
        (Some u, Some v) \<Rightarrow>
          if u + v = 0 then signed_zero (a = NZero \<and> b = NZero) else rnd (u + v)
      | (Some u, None) \<Rightarrow> b
      | (None, Some v) \<Rightarrow> a
      | (None, None) \<Rightarrow> if sign_bit a = sign_bit b then a else NaN)"

definition fmul :: "rounding \<Rightarrow> double \<Rightarrow> double \<Rightarrow> double" where
  "fmul rnd a b =
     (if is_nan a \<or> is_nan b then NaN
      else case (real_of a, real_of b) of
        (Some u, Some v) \<Rightarrow>
          if u * v = 0 then signed_zero (sign_bit a \<noteq> sign_bit b) else rnd (u * v)
      | (Some u, None) \<Rightarrow> if u = 0 then NaN else Infty (sign_bit a \<noteq> sign_bit b)
      | (None, Some v) \<Rightarrow> if v = 0 then NaN else Infty (sign_bit a \<noteq> sign_bit b)
      | (None, None) \<Rightarrow> Infty (sign_bit a \<noteq> sign_bit b))"

definition fdiv :: "rounding \<Rightarrow> double \<Rightarrow> double \<Rightarrow> double" where
  "fdiv rnd a b =
     (if is_nan a \<or> is_nan b then NaN
      else case (real_of a, real_of b) of
        (Some u, Some v) \<Rightarrow>
          if v = 0 then (if u = 0 then NaN else Infty (sign_bit a \<noteq> sign_bit b))
          else if u = 0 then signed_zero (sign_bit a \<noteq> sign_bit b)
          else rnd (u / v)
      | (Some u, None) \<Rightarrow> signed_zero (sign_bit a \<noteq> sign_bit b)
      | (None, Some v) \<Rightarrow> Infty (sign_bit a \<noteq> sign_bit b)
      | (None, None) \<Rightarrow> NaN)"

text \<open>
  The comparisons. Every comparison with NaN is false; the two zeros compare equal;
  \<^verbatim>\<open>-inf\<close> is below and \<^verbatim>\<open>+inf\<close> above every finite value.
\<close>

definition flt :: "double \<Rightarrow> double \<Rightarrow> bool" where
  "flt a b =
     (\<not> is_nan a \<and> \<not> is_nan b \<and>
      (case (real_of a, real_of b) of
        (Some u, Some v) \<Rightarrow> u < v
      | (Some u, None) \<Rightarrow> \<not> sign_bit b
      | (None, Some v) \<Rightarrow> sign_bit a
      | (None, None) \<Rightarrow> sign_bit a \<and> \<not> sign_bit b))"

definition fle :: "double \<Rightarrow> double \<Rightarrow> bool" where
  "fle a b =
     (\<not> is_nan a \<and> \<not> is_nan b \<and>
      (case (real_of a, real_of b) of
        (Some u, Some v) \<Rightarrow> u \<le> v
      | (Some u, None) \<Rightarrow> \<not> sign_bit b
      | (None, Some v) \<Rightarrow> sign_bit a
      | (None, None) \<Rightarrow> sign_bit a \<or> \<not> sign_bit b))"

definition fgt :: "double \<Rightarrow> double \<Rightarrow> bool" where
  "fgt a b = flt b a"

definition fge :: "double \<Rightarrow> double \<Rightarrow> bool" where
  "fge a b = fle b a"

definition feq :: "double \<Rightarrow> double \<Rightarrow> bool" where
  "feq a b = (fle a b \<and> fle b a)"



section \<open>RectBounds\<close>

text \<open>
  \<^verbatim>\<open>template <typename T> struct RectBounds\<close>, at the one type the header
  instantiates it with (\<^verbatim>\<open>RectBoundsd = RectBounds<double>\<close>).
\<close>

record RectBounds =
  left :: double
  right :: double
  top' :: double
  bottom :: double

definition reflectedHorizontally :: "RectBounds \<Rightarrow> RectBounds" where
  "reflectedHorizontally r =
     \<lparr>left = fneg (right r), right = fneg (left r), top' = top' r, bottom = bottom r\<rparr>"


section \<open>InclusiveBounds\<close>

text \<open>
  \<^verbatim>\<open>template <typename T> class InclusiveBounds\<close>, instantiated by the header as
  \<^verbatim>\<open>InclusiveBoundsd\<close> and \<^verbatim>\<open>InclusiveBoundsf\<close>; the members use only the
  comparisons of \<^verbatim>\<open>T\<close>, so one model serves both. The private members
  \<^verbatim>\<open>valid_\<close>, \<^verbatim>\<open>minVal_\<close>, \<^verbatim>\<open>maxVal_\<close> appear without the trailing underscore.

  The defaulted constructor sets \<^verbatim>\<open>valid_ = false\<close> and leaves the two values
  uninitialised: they are parameters of \<open>InclusiveBounds_default\<close>.
\<close>

record InclusiveBounds =
  valid :: bool
  minVal :: double
  maxVal :: double

definition InclusiveBounds_default :: "double \<Rightarrow> double \<Rightarrow> InclusiveBounds" where
  "InclusiveBounds_default u v = \<lparr>valid = False, minVal = u, maxVal = v\<rparr>"

definition InclusiveBounds_make :: "double \<Rightarrow> double \<Rightarrow> InclusiveBounds" where
  "InclusiveBounds_make minV maxV =
     (let b = \<lparr>valid = True, minVal = minV, maxVal = maxV\<rparr>
      in if flt (maxVal b) (minVal b)
         then b\<lparr>minVal := maxVal b, maxVal := minVal b\<rparr>
         else b)"

definition to_bool :: "InclusiveBounds \<Rightarrow> bool" where
  "to_bool b = valid b"

definition contains :: "InclusiveBounds \<Rightarrow> double \<Rightarrow> bool" where
  "contains b val = ((\<not> valid b) \<or> (fge val (minVal b) \<and> fle val (maxVal b)))"

definition outside :: "InclusiveBounds \<Rightarrow> double \<Rightarrow> bool" where
  "outside b val = (valid b \<and> (flt val (minVal b) \<or> fgt val (maxVal b)))"

definition getMin :: "InclusiveBounds \<Rightarrow> double" where
  "getMin b = minVal b"

definition getMax :: "InclusiveBounds \<Rightarrow> double" where
  "getMax b = maxVal b"


section \<open>XYZ: a 3D coordinate\<close>



record XYZ =
  x :: double
  y :: double
  z :: double

text \<open>\<^verbatim>\<open>XYZ() { x = y = z = 0; }\<close>\<close>

definition XYZ_default :: XYZ where
  "XYZ_default = \<lparr>x = Fin 0, y = Fin 0, z = Fin 0\<rparr>"


text \<open>
  \<^verbatim>\<open>projectOntoPlane\<close>: the function is total, as the source is; a division by zero
  is no error but delivers an infinity or NaN.
\<close>

definition projectOntoPlane :: "rounding \<Rightarrow> XYZ \<Rightarrow> double \<Rightarrow> double \<Rightarrow> double \<Rightarrow> double \<Rightarrow> XYZ" where
  "projectOntoPlane rnd p A B C D =
     (let ret = XYZ_default;
          s = fdiv rnd (fneg D)
                (fadd rnd (fadd rnd (fmul rnd A (x p)) (fmul rnd B (y p))) (fmul rnd C (z p)));
          ret = ret\<lparr>x := fmul rnd s (x p)\<rparr>;
          ret = ret\<lparr>y := fmul rnd s (y p)\<rparr>;
          ret = ret\<lparr>z := fmul rnd s (z p)\<rparr>
      in ret)"

text \<open>
  The two expressions in which the properties of \<^verbatim>\<open>projectOntoPlane\<close> are stated,
  evaluated as C++ evaluates them: \<^verbatim>\<open>A * x + B * y + C * z\<close>, the denominator, and
  \<^verbatim>\<open>A * x + B * y + C * z + D\<close>, the left side of the plane equation.
\<close>

definition rayDotNormal :: "rounding \<Rightarrow> double \<Rightarrow> double \<Rightarrow> double \<Rightarrow> XYZ \<Rightarrow> double" where
  "rayDotNormal rnd A B C p =
     fadd rnd (fadd rnd (fmul rnd A (x p)) (fmul rnd B (y p))) (fmul rnd C (z p))"




section \<open>DataOrigin\<close>

text \<open>
  \<^verbatim>\<open>lineNumber\<close> is a \<^verbatim>\<open>std::size_t\<close> that the header only stores. A
  default-constructed origin has the empty string as its source; its line number is
  whatever the kind of initialisation leaves there, a parameter here.
\<close>

record DataOrigin =
  inputSource :: string
  lineNumber :: nat

text \<open>\<^verbatim>\<open>std::string::empty()\<close>: the string has no characters.\<close>

definition string_empty :: "string \<Rightarrow> bool" where
  "string_empty s = (length s = 0)"

definition known :: "DataOrigin \<Rightarrow> bool" where
  "known d = (\<not> string_empty (inputSource d))"

definition DataOrigin_default :: "nat \<Rightarrow> DataOrigin" where
  "DataOrigin_default n = \<lparr>inputSource = [], lineNumber = n\<rparr>"


section \<open>Plane coefficients\<close>

text \<open>
  \<^verbatim>\<open>Plane\<close> is \<^verbatim>\<open>Eigen::Hyperplane<double, 3>\<close>, whose \<^verbatim>\<open>coeffs()\<close> is a vector
  of four doubles. Indexing the vector is in range for the indices 0 to 3 and \<open>None\<close>
  beyond. The four tag structs \<^verbatim>\<open>PlaneA\<close> to \<^verbatim>\<open>PlaneD\<close> are the values of
  \<open>PlaneName\<close>; \<open>PlaneCoefficientIndexTrait\<close> is the trait's four specialisations.
\<close>

datatype Vector4d = Vector4d double double double double

fun coeff :: "Vector4d \<Rightarrow> nat \<Rightarrow> double option" where
  "coeff (Vector4d c0 c1 c2 c3) i =
     (if i = 0 then Some c0
      else if i = 1 then Some c1
      else if i = 2 then Some c2
      else if i = 3 then Some c3
      else None)"

record Plane =
  coeffs :: Vector4d

datatype PlaneName = PlaneA | PlaneB | PlaneC | PlaneD

fun PlaneCoefficientIndexTrait :: "PlaneName \<Rightarrow> nat" where
  "PlaneCoefficientIndexTrait PlaneA = 0"
| "PlaneCoefficientIndexTrait PlaneB = 1"
| "PlaneCoefficientIndexTrait PlaneC = 2"
| "PlaneCoefficientIndexTrait PlaneD = 3"

definition PlaneAccessProxy_get :: "PlaneName \<Rightarrow> Plane \<Rightarrow> double option" where
  "PlaneAccessProxy_get t p = coeff (coeffs p) (PlaneCoefficientIndexTrait t)"


section \<open>ProjectionDescription\<close>

text \<open>
  The two fields of view have no default member initialiser: a default-constructed
  description holds whatever is there, the two parameters. The literals \<^verbatim>\<open>100.\<close>
  and \<^verbatim>\<open>0.5\<close> are binary fractions, converted without rounding.
\<close>

record ProjectionDescription =
  hFOVDegrees :: double
  vFOVDegrees :: double
  overlapPercent :: double
  cop :: "double \<times> double"

definition ProjectionDescription_default :: "double \<Rightarrow> double \<Rightarrow> ProjectionDescription" where
  "ProjectionDescription_default h v =
     \<lparr>hFOVDegrees = h, vFOVDegrees = v, overlapPercent = Fin 100, cop = (Fin (1 / 2), Fin (1 / 2))\<rparr>"


section \<open>Facts about the comparisons\<close>

lemma fneg_fneg: "fneg (fneg d) = d"
  by (cases d) auto

lemma flt_iff_not_fle:
  "\<not> is_nan a \<Longrightarrow> \<not> is_nan b \<Longrightarrow> flt a b = (\<not> fle b a)"
  by (cases a; cases b) (auto simp: flt_def fle_def)

lemma flt_imp_fle: "flt a b \<Longrightarrow> fle a b"
  by (cases a; cases b) (auto simp: flt_def fle_def)

lemma flt_trichotomy:
  "\<not> is_nan a \<Longrightarrow> \<not> is_nan b \<Longrightarrow> flt a b \<or> flt b a \<or> feq a b"
  by (cases a; cases b) (auto simp: flt_def fle_def feq_def)

lemma flt_asym: "flt a b \<Longrightarrow> \<not> flt b a"
  by (cases a; cases b) (auto simp: flt_def)

lemma feq_refl: "\<not> is_nan a \<Longrightarrow> feq a a"
  by (cases a) (auto simp: feq_def fle_def)


section \<open>RectBounds: reflection\<close>

text \<open>
  C10. Reflecting a rectangle horizontally twice gives the rectangle back: the left
  and right edges are negated twice, the top and bottom edges are not touched.
\<close>

theorem reflectedHorizontally_involution:
  "reflectedHorizontally (reflectedHorizontally r) = r
   \<and> left (reflectedHorizontally (reflectedHorizontally r)) = fneg (fneg (left r))
   \<and> right (reflectedHorizontally (reflectedHorizontally r)) = fneg (fneg (right r))
   \<and> top' (reflectedHorizontally r) = top' r
   \<and> bottom (reflectedHorizontally r) = bottom r"
  by (simp add: reflectedHorizontally_def fneg_fneg)


section \<open>InclusiveBounds: the two predicates\<close>

lemma feq_sym: "feq a b = feq b a"
  by (auto simp: feq_def)

lemma InclusiveBounds_make_swapped:
  "flt b a \<Longrightarrow> InclusiveBounds_make a b = \<lparr>valid = True, minVal = b, maxVal = a\<rparr>"
  by (simp add: InclusiveBounds_make_def)

lemma InclusiveBounds_make_kept:
  "\<not> flt b a \<Longrightarrow> InclusiveBounds_make a b = \<lparr>valid = True, minVal = a, maxVal = b\<rparr>"
  by (simp add: InclusiveBounds_make_def)

text \<open>
  C8, as stated, at a valid range and the value NaN: every comparison with NaN is
  false, so the range neither contains NaN nor has it outside.
\<close>

theorem outside_not_contains_counterexample:
  "outside (InclusiveBounds_make (Fin 0) (Fin 1)) NaN
     \<noteq> (\<not> contains (InclusiveBounds_make (Fin 0) (Fin 1)) NaN)"
  by (simp add: outside_def contains_def InclusiveBounds_make_def
      flt_def fle_def fgt_def fge_def)

text \<open>
  C8, amended. For a range that is unbounded, or whose two ends are not NaN and a
  value that is not NaN, \<open>outside\<close> is the negation of \<open>contains\<close>. A
  default-constructed range contains every value, NaN included, and has none outside,
  whatever its two uninitialised members hold.
\<close>

theorem outside_iff_not_contains:
  "((valid b \<longrightarrow> \<not> is_nan val \<and> \<not> is_nan (minVal b) \<and> \<not> is_nan (maxVal b))
      \<longrightarrow> outside b val = (\<not> contains b val))
   \<and> contains (InclusiveBounds_default u v) w
   \<and> \<not> outside (InclusiveBounds_default u v) w
   \<and> \<not> to_bool (InclusiveBounds_default u v)"
proof -
  have "outside b val = (\<not> contains b val)"
    if "valid b \<longrightarrow> \<not> is_nan val \<and> \<not> is_nan (minVal b) \<and> \<not> is_nan (maxVal b)"
  proof (cases "valid b")
    case True
    with that have n: "\<not> is_nan val" "\<not> is_nan (minVal b)" "\<not> is_nan (maxVal b)"
      by simp_all
    have "flt val (minVal b) = (\<not> fle (minVal b) val)"
      using n by (simp add: flt_iff_not_fle)
    moreover have "flt (maxVal b) val = (\<not> fle val (maxVal b))"
      using n by (simp add: flt_iff_not_fle)
    ultimately show ?thesis
      using True by (auto simp: outside_def contains_def fgt_def fge_def)
  next
    case False
    then show ?thesis by (simp add: outside_def contains_def)
  qed
  then show ?thesis
    by (simp add: outside_def contains_def InclusiveBounds_default_def to_bool_def)
qed

theorem outside_iff_not_contains_witness:
  "valid (InclusiveBounds_make (Fin 0) (Fin 1))
   \<and> \<not> is_nan (Fin 2)
   \<and> \<not> is_nan (minVal (InclusiveBounds_make (Fin 0) (Fin 1)))
   \<and> \<not> is_nan (maxVal (InclusiveBounds_make (Fin 0) (Fin 1)))
   \<and> outside (InclusiveBounds_make (Fin 0) (Fin 1)) (Fin 2)
   \<and> \<not> contains (InclusiveBounds_make (Fin 0) (Fin 1)) (Fin 2)"
  using outside_iff_not_contains [of "InclusiveBounds_make (Fin 0) (Fin 1)" "Fin 2"]
  by (simp add: InclusiveBounds_make_def flt_def fle_def fge_def contains_def)


section \<open>InclusiveBounds: the two-argument constructor\<close>

text \<open>
  C9, as stated, at the arguments NaN and 1: \<^verbatim>\<open>maxVal_ < minVal_\<close> is false, nothing
  is swapped, and \<^verbatim>\<open>getMin() <= getMax()\<close> compares NaN with 1.
\<close>

theorem InclusiveBounds_make_counterexample:
  "\<not> fle (getMin (InclusiveBounds_make NaN (Fin 1))) (getMax (InclusiveBounds_make NaN (Fin 1)))"
  by (simp add: InclusiveBounds_make_def getMin_def getMax_def flt_def fle_def)

text \<open>
  C9, amended. The range constructed from any two values is valid, and its ends are
  the arguments, exchanged exactly when the second is less than the first. When
  neither argument is NaN, the minimum is at most the maximum, and the arguments in
  the other order give ends that compare equal to these; the two ranges are the same
  record unless the arguments are the two zeros of opposite sign.
\<close>

theorem InclusiveBounds_make_ordered:
  "to_bool (InclusiveBounds_make a b)
   \<and> (flt b a \<longrightarrow> getMin (InclusiveBounds_make a b) = b \<and> getMax (InclusiveBounds_make a b) = a)
   \<and> (\<not> flt b a \<longrightarrow> getMin (InclusiveBounds_make a b) = a \<and> getMax (InclusiveBounds_make a b) = b)
   \<and> (\<not> is_nan a \<and> \<not> is_nan b \<longrightarrow>
        fle (getMin (InclusiveBounds_make a b)) (getMax (InclusiveBounds_make a b))
        \<and> feq (getMin (InclusiveBounds_make a b)) (getMin (InclusiveBounds_make b a))
        \<and> feq (getMax (InclusiveBounds_make a b)) (getMax (InclusiveBounds_make b a))
        \<and> (a = b \<or> \<not> feq a b \<longrightarrow> InclusiveBounds_make a b = InclusiveBounds_make b a))"
proof -
  have v: "to_bool (InclusiveBounds_make a b)"
    by (simp add: InclusiveBounds_make_def to_bool_def Let_def)
  have s: "flt b a \<longrightarrow> getMin (InclusiveBounds_make a b) = b \<and> getMax (InclusiveBounds_make a b) = a"
    by (simp add: InclusiveBounds_make_swapped getMin_def getMax_def)
  have k: "\<not> flt b a \<longrightarrow> getMin (InclusiveBounds_make a b) = a \<and> getMax (InclusiveBounds_make a b) = b"
    by (simp add: InclusiveBounds_make_kept getMin_def getMax_def)
  have o: "fle (getMin (InclusiveBounds_make a b)) (getMax (InclusiveBounds_make a b))
        \<and> feq (getMin (InclusiveBounds_make a b)) (getMin (InclusiveBounds_make b a))
        \<and> feq (getMax (InclusiveBounds_make a b)) (getMax (InclusiveBounds_make b a))
        \<and> (a = b \<or> \<not> feq a b \<longrightarrow> InclusiveBounds_make a b = InclusiveBounds_make b a)"
    if n: "\<not> is_nan a" "\<not> is_nan b"
  proof -
    consider (lt) "flt a b" | (gt) "flt b a" | (eq) "feq a b"
      using n flt_trichotomy [of a b] by blast
    then show ?thesis
    proof cases
      case lt
      then have nb: "\<not> flt b a"
        by (rule flt_asym)
      have "fle a b" using lt by (rule flt_imp_fle)
      moreover have "feq a a" "feq b b"
        using n by (simp_all add: feq_refl)
      ultimately show ?thesis
        using lt nb
        by (simp add: InclusiveBounds_make_swapped InclusiveBounds_make_kept getMin_def getMax_def)
    next
      case gt
      then have na: "\<not> flt a b"
        by (rule flt_asym)
      have "fle b a" using gt by (rule flt_imp_fle)
      moreover have "feq a a" "feq b b"
        using n by (simp_all add: feq_refl)
      ultimately show ?thesis
        using gt na
        by (simp add: InclusiveBounds_make_swapped InclusiveBounds_make_kept getMin_def getMax_def)
    next
      case eq
      then have nl: "\<not> flt a b" "\<not> flt b a"
        by (cases a; cases b; auto simp: flt_def fle_def feq_def)+
      have "fle a b" using eq by (simp add: feq_def)
      moreover have "feq b a" using eq by (simp add: feq_sym)
      ultimately show ?thesis
        using eq nl
        by (auto simp: InclusiveBounds_make_kept getMin_def getMax_def)
    qed
  qed
  from v s k o show ?thesis by blast
qed

theorem InclusiveBounds_make_ordered_witness:
  "flt (Fin 1) (Fin 3) \<and> \<not> is_nan (Fin 3) \<and> \<not> is_nan (Fin 1) \<and> \<not> feq (Fin 3) (Fin 1)
   \<and> getMin (InclusiveBounds_make (Fin 3) (Fin 1)) = Fin 1
   \<and> getMax (InclusiveBounds_make (Fin 3) (Fin 1)) = Fin 3
   \<and> fle (getMin (InclusiveBounds_make (Fin 3) (Fin 1))) (getMax (InclusiveBounds_make (Fin 3) (Fin 1)))
   \<and> InclusiveBounds_make (Fin 3) (Fin 1) = InclusiveBounds_make (Fin 1) (Fin 3)"
proof -
  have h: "flt (Fin 1) (Fin 3)" "\<not> is_nan (Fin 3)" "\<not> is_nan (Fin 1)" "\<not> feq (Fin 3) (Fin 1)"
    by (simp_all add: flt_def feq_def fle_def)
  show ?thesis
    using h InclusiveBounds_make_ordered [of "Fin 3" "Fin 1"] by blast
qed


section \<open>DataOrigin, ProjectionDescription, plane accessors\<close>

text \<open>
  C5. An origin is known exactly when its source string is not empty. A
  default-constructed origin is unknown whatever its line number, and changing the
  line number of any origin does not change whether it is known.
\<close>

theorem known_iff_source_nonempty:
  "known d = (inputSource d \<noteq> [])
   \<and> \<not> known (DataOrigin_default n)
   \<and> known (d\<lparr>lineNumber := m\<rparr>) = known d
   \<and> \<not> known \<lparr>inputSource = [], lineNumber = m\<rparr>"
  by (simp add: known_def string_empty_def DataOrigin_default_def)

text \<open>
  C6. In a default-constructed projection description the overlap is 100 percent and
  the centre of projection is (0.5, 0.5), whatever the two fields of view hold.
\<close>

theorem ProjectionDescription_default_values:
  "overlapPercent (ProjectionDescription_default h v) = Fin 100
   \<and> cop (ProjectionDescription_default h v) = (Fin 0.5, Fin 0.5)"
  by (simp add: ProjectionDescription_default_def)

text \<open>
  C7. Each named accessor reads the plane's coefficient vector at its own position:
  A at 0, B at 1, C at 2, D at 3. The position is always in range, so for the plane
  with coefficients \<open>a b c d\<close> the four accessors return \<open>a\<close>, \<open>b\<close>, \<open>c\<close> and \<open>d\<close>.
\<close>

theorem PlaneAccessProxy_get_positional:
  "PlaneAccessProxy_get PlaneA p = coeff (coeffs p) 0
   \<and> PlaneAccessProxy_get PlaneB p = coeff (coeffs p) 1
   \<and> PlaneAccessProxy_get PlaneC p = coeff (coeffs p) 2
   \<and> PlaneAccessProxy_get PlaneD p = coeff (coeffs p) 3
   \<and> PlaneAccessProxy_get PlaneA \<lparr>coeffs = Vector4d a b c d\<rparr> = Some a
   \<and> PlaneAccessProxy_get PlaneB \<lparr>coeffs = Vector4d a b c d\<rparr> = Some b
   \<and> PlaneAccessProxy_get PlaneC \<lparr>coeffs = Vector4d a b c d\<rparr> = Some c
   \<and> PlaneAccessProxy_get PlaneD \<lparr>coeffs = Vector4d a b c d\<rparr> = Some d"
  by (simp add: PlaneAccessProxy_get_def)


section \<open>The rounding of double\<close>


lemma floor_log2_eqI:
  assumes "0 < a" "2 powr (of_int e) \<le> a" "a < 2 powr (of_int e + 1)"
  shows "\<lfloor>log 2 a\<rfloor> = e"
  using assms floor_log_eq_powr_iff [of a 2 e] by simp







lemma binary64_binade:
  assumes "0 < r" "2 powr (of_int e) \<le> r" "r < 2 powr (of_int e + 1)" "- 1022 \<le> e"
  shows "binary64 r =
    (let q = 2 powr (of_int e - 52); n = round_half_even (r / q); m = of_int n * q
     in if 2 ^ 1024 \<le> m then Infty False
        else if n = 0 then Fin 0
        else Fin m)"
proof -
  have "\<lfloor>log 2 r\<rfloor> = e"
    using assms(1-3) by (rule floor_log2_eqI)
  then have "max \<lfloor>log 2 \<bar>r\<bar>\<rfloor> (- 1022) = e"
    using assms(1,4) by simp
  then show ?thesis
    using assms(1) by (simp add: binary64_def Let_def signed_zero_def)
qed


lemma binary64_examples:
  "binary64 9007199254740993 = Fin 9007199254740992"
  "binary64 10000000000000001 = Fin 10000000000000000"
  "binary64 (2 ^ 1024) = Infty False"
  by (subst binary64_binade [where e = 53],
      simp_all add: powr_numeral round_half_even_def Let_def,
      subst binary64_binade [where e = 53],
      simp_all add: powr_numeral round_half_even_def Let_def,
      subst binary64_binade [where e = 1024],
      simp_all add: powr_numeral round_half_even_def Let_def)

lemma binary64_tenth: "binary64 (1 / 10) = Fin (3602879701896397 / 36028797018963968)"
proof -
  have "\<lfloor>log 2 (1 / 10 :: real)\<rfloor> = - 4"
    by (rule floor_log2_eqI) (simp_all add: powr_minus_divide powr_numeral)
  then show ?thesis
    by (simp add: binary64_def Let_def round_half_even_def powr_minus_divide powr_numeral)
qed












section \<open>Exact operations\<close>












lemma fdiv_by_zero_not_finite:
  "is_zero b \<Longrightarrow> \<not> is_zero a \<Longrightarrow> real_of (fdiv rnd a b) = None \<and> \<not> is_zero (fdiv rnd a b)"
  by (cases a; cases b) (auto simp: fdiv_def)

lemma fmul_not_finite:
  "real_of s = None \<Longrightarrow> real_of (fmul rnd s a) = None"
  by (cases s; cases a) (auto simp: fmul_def)

lemma is_zero_fneg: "is_zero (fneg a) = is_zero a"
  by (cases a) auto


section \<open>projectOntoPlane\<close>


lemma projectOntoPlane_fields:
  "x (projectOntoPlane rnd p A B C D) = fmul rnd (fdiv rnd (fneg D) (rayDotNormal rnd A B C p)) (x p)"
  "y (projectOntoPlane rnd p A B C D) = fmul rnd (fdiv rnd (fneg D) (rayDotNormal rnd A B C p)) (y p)"
  "z (projectOntoPlane rnd p A B C D) = fmul rnd (fdiv rnd (fneg D) (rayDotNormal rnd A B C p)) (z p)"
  by (simp_all add: projectOntoPlane_def rayDotNormal_def XYZ_default_def Let_def)
















text \<open>
  C3. Under every rounding, when the denominator \<^verbatim>\<open>A * x + B * y + C * z\<close> is a zero
  and \<open>D\<close> is not, each of the three components returned is an infinity or NaN; the
  function has no other outcome, it signals no error.
\<close>

theorem projectOntoPlane_parallel:
  assumes "is_zero (rayDotNormal rnd A B C p)" and "\<not> is_zero D"
  shows "\<not> is_finite (x (projectOntoPlane rnd p A B C D))
       \<and> \<not> is_finite (y (projectOntoPlane rnd p A B C D))
       \<and> \<not> is_finite (z (projectOntoPlane rnd p A B C D))"
proof -
  have "real_of (fdiv rnd (fneg D) (rayDotNormal rnd A B C p)) = None"
    using assms by (simp add: fdiv_by_zero_not_finite is_zero_fneg)
  then show ?thesis
    by (simp add: projectOntoPlane_fields is_finite_def fmul_not_finite)
qed

theorem projectOntoPlane_parallel_witness:
  "is_zero (rayDotNormal binary64 (Fin 1) (Fin 0) (Fin 0) \<lparr>x = Fin 0, y = Fin 1, z = Fin 0\<rparr>)
   \<and> \<not> is_zero (Fin 1)
   \<and> projectOntoPlane binary64 \<lparr>x = Fin 0, y = Fin 1, z = Fin 0\<rparr> (Fin 1) (Fin 0) (Fin 0) (Fin 1)
       = \<lparr>x = NaN, y = Infty True, z = NaN\<rparr>
   \<and> \<not> is_finite (x (projectOntoPlane binary64 \<lparr>x = Fin 0, y = Fin 1, z = Fin 0\<rparr> (Fin 1) (Fin 0) (Fin 0) (Fin 1)))
   \<and> \<not> is_finite (y (projectOntoPlane binary64 \<lparr>x = Fin 0, y = Fin 1, z = Fin 0\<rparr> (Fin 1) (Fin 0) (Fin 0) (Fin 1)))
   \<and> \<not> is_finite (z (projectOntoPlane binary64 \<lparr>x = Fin 0, y = Fin 1, z = Fin 0\<rparr> (Fin 1) (Fin 0) (Fin 0) (Fin 1)))"
proof -
  have h: "is_zero (rayDotNormal binary64 (Fin 1) (Fin 0) (Fin 0) \<lparr>x = Fin 0, y = Fin 1, z = Fin 0\<rparr>)"
    by (simp add: rayDotNormal_def fadd_def fmul_def signed_zero_def)
  have d: "\<not> is_zero (Fin 1)" by simp
  have e: "projectOntoPlane binary64 \<lparr>x = Fin 0, y = Fin 1, z = Fin 0\<rparr> (Fin 1) (Fin 0) (Fin 0) (Fin 1)
       = \<lparr>x = NaN, y = Infty True, z = NaN\<rparr>"
    by (simp add: projectOntoPlane_def XYZ_default_def fadd_def fmul_def fdiv_def signed_zero_def)
  show ?thesis
    using h d e projectOntoPlane_parallel [OF h d] by simp
qed


section \<open>rotationAboutY\<close>
















end
